theory Spec2Isabelle
  imports Main
begin

section \<open>The query state: URLSearchParams\<close>

text \<open>
  The selection lives in the query string of the address. \<^verbatim>\<open>useSearchParams\<close> hands the
  component a \<^verbatim>\<open>URLSearchParams\<close> object: an ordered list of name-value pairs in which a
  name may occur more than once. The three methods the component calls are modelled on
  that list as the URL standard defines them:
  \<^item> \<^verbatim>\<open>get(name)\<close> is the value of the first pair with that name, or \<^verbatim>\<open>null\<close>;
  \<^item> \<^verbatim>\<open>delete(name)\<close> removes every pair with that name;
  \<^item> \<^verbatim>\<open>set(name, value)\<close> overwrites the first pair with that name and removes the
    others, or appends a pair when there is none.
\<close>

type_synonym params = "(string \<times> string) list"

fun sp_get :: "params \<Rightarrow> string \<Rightarrow> string option" where
  "sp_get [] k = None"
| "sp_get ((k', v) # ps) k = (if k' = k then Some v else sp_get ps k)"

fun sp_delete :: "string \<Rightarrow> params \<Rightarrow> params" where
  "sp_delete k [] = []"
| "sp_delete k ((k', v) # ps) = (if k' = k then sp_delete k ps else (k', v) # sp_delete k ps)"

fun sp_set :: "string \<Rightarrow> string \<Rightarrow> params \<Rightarrow> params" where
  "sp_set k v [] = [(k, v)]"
| "sp_set k v ((k', v') # ps) =
     (if k' = k then (k, v) # sp_delete k ps else (k', v') # sp_set k v ps)"

text \<open>
  \<^verbatim>\<open>!s\<close> for \<^verbatim>\<open>s: string | null\<close>: true for \<^verbatim>\<open>null\<close> and for the empty string, false for
  every other string (also for \<^verbatim>\<open>"0"\<close>).
\<close>

fun falsy :: "string option \<Rightarrow> bool" where
  "falsy None = True"
| "falsy (Some s) = (s = [])"

subsection \<open>The selected identifiers (FilterPage.tsx, lines 53 to 55)\<close>

definition selectedProvId :: "params \<Rightarrow> string option" where
  "selectedProvId searchParams = sp_get searchParams ''province''"

definition selectedRegId :: "params \<Rightarrow> string option" where
  "selectedRegId searchParams = sp_get searchParams ''regency''"

definition selectedDistId :: "params \<Rightarrow> string option" where
  "selectedDistId searchParams = sp_get searchParams ''district''"

subsection \<open>The event handlers (FilterPage.tsx, lines 71 to 109)\<close>

text \<open>
  Each handler ends in \<^verbatim>\<open>setSearchParams(next)\<close>, which navigates to the query string built
  from \<^verbatim>\<open>next\<close> alone: the new parameters replace the old ones. A handler is therefore a
  function from the event's value and the current parameters to the next parameters.
  \<^verbatim>\<open>setSearchParams({ province: val })\<close> yields the one pair, \<^verbatim>\<open>setSearchParams({})\<close> none;
  \<^verbatim>\<open>new URLSearchParams(searchParams)\<close> is a copy of the current list.
\<close>

definition handleProvChange :: "string \<Rightarrow> params \<Rightarrow> params" where
  "handleProvChange val searchParams =
     (if val \<noteq> [] then [(''province'', val)] else [])"

definition handleRegChange :: "string \<Rightarrow> params \<Rightarrow> params" where
  "handleRegChange val searchParams =
     (let newParams = searchParams in
      if val \<noteq> [] then sp_delete ''district'' (sp_set ''regency'' val newParams)
      else sp_delete ''district'' (sp_delete ''regency'' newParams))"

definition handleDistChange :: "string \<Rightarrow> params \<Rightarrow> params" where
  "handleDistChange val searchParams =
     (let newParams = searchParams in
      if val \<noteq> [] then sp_set ''district'' val newParams
      else sp_delete ''district'' newParams)"

definition handleReset :: "params \<Rightarrow> params" where
  "handleReset searchParams = []"

section \<open>Numbers and the dataset\<close>

text \<open>
  An identifier of the dataset is a JavaScript number holding an integer; it is modelled
  by its integer value. The result of \<^verbatim>\<open>Number(...)\<close> is such a number or \<^verbatim>\<open>NaN\<close>, and
  \<^verbatim>\<open>===\<close> between an identifier and that result is equality of the values, false when
  the result is \<^verbatim>\<open>NaN\<close>.
\<close>

datatype jsnum = NaN | Num int

fun strict_eq :: "int \<Rightarrow> jsnum \<Rightarrow> bool" where
  "strict_eq i NaN = False"
| "strict_eq i (Num n) = (i = n)"

definition is_digit :: "char \<Rightarrow> bool" where
  "is_digit c = (48 \<le> (of_char c :: nat) \<and> (of_char c :: nat) \<le> 57)"

definition digit_val :: "char \<Rightarrow> nat" where
  "digit_val c = of_char c - 48"

definition is_dec :: "string \<Rightarrow> bool" where
  "is_dec ds = (ds \<noteq> [] \<and> list_all is_digit ds)"

definition dec_value :: "string \<Rightarrow> nat" where
  "dec_value ds = foldl (\<lambda>a c. 10 * a + digit_val c) 0 ds"

text \<open>\<^verbatim>\<open>Number.MAX_SAFE_INTEGER\<close>: up to it every integer is a number of its own.\<close>

definition MAX_SAFE_INTEGER :: nat where
  "MAX_SAFE_INTEGER = 2 ^ 53 - 1"

text \<open>A letter that occurs in no numeric literal of JavaScript and is no white space.\<close>

definition unnumeric :: "char \<Rightarrow> bool" where
  "unnumeric c = (c \<in> set ''ghjklmpqrsuvwzGHJKLMNPQRSTUVWYZ'')"

text \<open>
  \<^verbatim>\<open>Number(v)\<close> for \<^verbatim>\<open>v: string | null\<close>, the type of \<^verbatim>\<open>searchParams.get(...)\<close>:
  \<^item> \<^verbatim>\<open>null\<close> converts to 0, and so does the empty string;
  \<^item> a string of decimal digits, with or without a leading minus sign, converts to its
    value when that is at most \<^verbatim>\<open>Number.MAX_SAFE_INTEGER\<close> in magnitude;
  \<^item> a string holding a letter that belongs to no numeric literal converts to \<^verbatim>\<open>NaN\<close>.
  Every other string (white space around a literal, a plus sign, a fraction, an exponent,
  a radix prefix, \<^verbatim>\<open>Infinity\<close>, digits of a greater magnitude) is left to the parameter
  \<open>other\<close>, so that what is proved below holds whatever the conversion does there.
\<close>

definition Number :: "(string \<Rightarrow> jsnum) \<Rightarrow> string option \<Rightarrow> jsnum" where
  "Number other v =
     (case v of
        None \<Rightarrow> Num 0
      | Some s \<Rightarrow>
          if s = [] then Num 0
          else if is_dec s \<and> dec_value s \<le> MAX_SAFE_INTEGER then Num (int (dec_value s))
          else if hd s = CHR ''-'' \<and> is_dec (tl s) \<and> dec_value (tl s) \<le> MAX_SAFE_INTEGER
            then Num (- int (dec_value (tl s)))
          else if list_ex unnumeric s then NaN
          else other s)"

text \<open>
  The value of \<^verbatim>\<open><option value={p.id}>\<close>, which the change event hands back to the handler
  as \<^verbatim>\<open>e.target.value\<close>: the decimal digits of the identifier, after a minus sign when it
  is negative. JavaScript prints an integer this way below \<open>10 ^ 21\<close> in magnitude; the
  function is used below for identifiers up to \<^verbatim>\<open>Number.MAX_SAFE_INTEGER\<close> only.
\<close>

fun digits_of :: "nat \<Rightarrow> string" where
  "digits_of n =
     (if n < 10 then [char_of (48 + n)]
      else digits_of (n div 10) @ [char_of (48 + n mod 10)])"

declare digits_of.simps [simp del]

definition option_value :: "int \<Rightarrow> string" where
  "option_value i = (if i < 0 then CHR ''-'' # digits_of (nat (- i)) else digits_of (nat i))"

record Region =
  ident :: int
  name :: string

record Regency = Region +
  province_id :: int

record District = Region +
  regency_id :: int

record RegionData =
  provinces :: "Region list"
  regencies :: "Regency list"
  districts :: "District list"

subsection \<open>The loader (FilterPage.tsx, lines 20 to 29)\<close>

text \<open>
  What \<^verbatim>\<open>fetch\<close> and \<^verbatim>\<open>response.json()\<close> can do: the request is rejected, or a response
  arrives with its \<^verbatim>\<open>ok\<close> flag and a body that parses to a dataset (\<open>Some\<close>) or does not
  (\<open>None\<close>).
\<close>

datatype fetch_outcome = Rejected | Response bool "RegionData option"

datatype load_error = NetworkFailure | NotOk | ParseFailure

definition no_data :: RegionData where
  "no_data = \<lparr>provinces = [], regencies = [], districts = []\<rparr>"

text \<open>The body of the \<^verbatim>\<open>try\<close> block: every \<^verbatim>\<open>throw\<close> and rejection is an \<open>Inl\<close>.\<close>

fun try_load :: "fetch_outcome \<Rightarrow> load_error + RegionData" where
  "try_load Rejected = Inl NetworkFailure"
| "try_load (Response ok body) =
     (if \<not> ok then Inl NotOk
      else case body of None \<Rightarrow> Inl ParseFailure | Some d \<Rightarrow> Inr d)"

text \<open>The loader with its \<^verbatim>\<open>catch\<close>: what the promise settles to, \<open>Inl\<close> being a rejection.\<close>

definition regionLoader :: "fetch_outcome \<Rightarrow> load_error + RegionData" where
  "regionLoader outcome =
     (case try_load outcome of Inl error \<Rightarrow> Inr no_data | Inr d \<Rightarrow> Inr d)"

subsection \<open>The derived values (FilterPage.tsx, lines 57 to 69)\<close>

definition availableRegencies :: "(string \<Rightarrow> jsnum) \<Rightarrow> RegionData \<Rightarrow> params \<Rightarrow> Regency list" where
  "availableRegencies other data searchParams =
     (if falsy (selectedProvId searchParams) then []
      else filter (\<lambda>r. strict_eq (province_id r) (Number other (selectedProvId searchParams)))
             (regencies data))"

definition availableDistricts :: "(string \<Rightarrow> jsnum) \<Rightarrow> RegionData \<Rightarrow> params \<Rightarrow> District list" where
  "availableDistricts other data searchParams =
     (if falsy (selectedRegId searchParams) then []
      else filter (\<lambda>d. strict_eq (regency_id d) (Number other (selectedRegId searchParams)))
             (districts data))"

definition provName :: "(string \<Rightarrow> jsnum) \<Rightarrow> RegionData \<Rightarrow> params \<Rightarrow> string option" where
  "provName other data searchParams =
     map_option name
       (find (\<lambda>p. strict_eq (ident p) (Number other (selectedProvId searchParams)))
          (provinces data))"

definition regName :: "(string \<Rightarrow> jsnum) \<Rightarrow> RegionData \<Rightarrow> params \<Rightarrow> string option" where
  "regName other data searchParams =
     map_option name
       (find (\<lambda>r. strict_eq (ident r) (Number other (selectedRegId searchParams)))
          (regencies data))"

definition distName :: "(string \<Rightarrow> jsnum) \<Rightarrow> RegionData \<Rightarrow> params \<Rightarrow> string option" where
  "distName other data searchParams =
     map_option name
       (find (\<lambda>d. strict_eq (ident d) (Number other (selectedDistId searchParams)))
          (districts data))"

subsection \<open>The loading flag (FilterPage.tsx, lines 31 to 43)\<close>

text \<open>
  \<^verbatim>\<open>useTimedLoading\<close> keeps one boolean state and, while it is true, one pending timeout. The
  state of the hook is the flag together with the time left on the pending timeout, in
  milliseconds (\<open>None\<close> when no timeout is pending). Time passes in \<open>elapse\<close>; a timeout
  fires as soon as its time is used up.
\<close>

record timed =
  loading :: bool
  timeout :: "nat option"

text \<open>The hook after mounting: \<^verbatim>\<open>useState(false)\<close>, and the effect returns at once.\<close>

definition idle :: timed where
  "idle = \<lparr>loading = False, timeout = None\<rparr>"

text \<open>
  The effect, run after a render in which \<^verbatim>\<open>loading\<close> has changed: the cleanup of the
  previous run clears its timeout, then the body arms a new one when \<^verbatim>\<open>loading\<close> is true.
\<close>

definition effect :: "nat \<Rightarrow> timed \<Rightarrow> timed" where
  "effect delay h = (if \<not> loading h then h\<lparr>timeout := None\<rparr> else h\<lparr>timeout := Some delay\<rparr>)"

text \<open>
  \<^verbatim>\<open>setLoading(v)\<close>: setting the state to the value it has changes nothing, and the effect,
  whose dependencies are \<^verbatim>\<open>[loading, delay]\<close>, does not run again; a new value is stored and
  the effect runs.
\<close>

definition setLoading :: "nat \<Rightarrow> bool \<Rightarrow> timed \<Rightarrow> timed" where
  "setLoading delay v h = (if loading h = v then h else effect delay (h\<lparr>loading := v\<rparr>))"

definition start :: "nat \<Rightarrow> timed \<Rightarrow> timed" where
  "start delay h = setLoading delay True h"

text \<open>
  \<open>dt\<close> milliseconds pass. A pending timeout with more time left keeps running; one whose
  time is used up fires, is gone, and its callback calls \<^verbatim>\<open>setLoading(false)\<close>.
\<close>

definition elapse :: "nat \<Rightarrow> nat \<Rightarrow> timed \<Rightarrow> timed" where
  "elapse delay dt h =
     (case timeout h of
        None \<Rightarrow> h
      | Some remaining \<Rightarrow>
          if dt < remaining then h\<lparr>timeout := Some (remaining - dt)\<rparr>
          else setLoading delay False (h\<lparr>timeout := None\<rparr>))"

text \<open>What happens to a flag: a selection change calls \<^verbatim>\<open>start\<close>, or time passes.\<close>

datatype event = Start | Elapse nat

fun step :: "nat \<Rightarrow> timed \<Rightarrow> event \<Rightarrow> timed" where
  "step delay h Start = start delay h"
| "step delay h (Elapse dt) = elapse delay dt h"

definition run :: "nat \<Rightarrow> timed \<Rightarrow> event list \<Rightarrow> timed" where
  "run delay h evs = foldl (step delay) h evs"

text \<open>The time that passes in a list of events.\<close>

fun elapsed :: "event list \<Rightarrow> nat" where
  "elapsed [] = 0"
| "elapsed (Start # evs) = elapsed evs"
| "elapsed (Elapse dt # evs) = dt + elapsed evs"

section \<open>Lookup after update\<close>

lemma sp_get_delete: "sp_get (sp_delete k ps) k' = (if k' = k then None else sp_get ps k')"
  by (induction ps) auto

lemma sp_get_set: "sp_get (sp_set k v ps) k' = (if k' = k then Some v else sp_get ps k')"
  by (induction ps) (auto simp: sp_get_delete)

section \<open>What an update leaves alone\<close>

lemma sp_delete_filter: "sp_delete k ps = filter (\<lambda>kv. fst kv \<noteq> k) ps"
  by (induction ps) auto

lemma filter_sp_delete:
  "filter (\<lambda>kv. Q (fst kv)) (sp_delete k ps) = filter (\<lambda>kv. Q (fst kv) \<and> fst kv \<noteq> k) ps"
  by (induction ps) auto

lemma filter_sp_set_other:
  "\<not> Q k \<Longrightarrow> filter (\<lambda>kv. Q (fst kv)) (sp_set k v ps) = filter (\<lambda>kv. Q (fst kv)) ps"
  by (induction ps) (auto simp: filter_sp_delete intro: filter_cong)

lemma filter_sp_delete_own: "filter (\<lambda>kv. fst kv = k) (sp_delete k ps) = []"
  by (induction ps) auto

lemma filter_sp_set_own:
  "filter (\<lambda>kv. fst kv = k) (sp_set k v ps) = [(k, v)]"
  by (induction ps) (auto simp: filter_sp_delete_own)

lemma handleRegChange_frame:
  "filter (\<lambda>kv. fst kv \<noteq> ''regency'' \<and> fst kv \<noteq> ''district'') (handleRegChange val ps)
     = filter (\<lambda>kv. fst kv \<noteq> ''regency'' \<and> fst kv \<noteq> ''district'') ps"
proof (cases "val = []")
  case True
  then show ?thesis
    by (auto simp: handleRegChange_def sp_delete_filter intro: filter_cong)
next
  case False
  have "filter (\<lambda>kv. fst kv \<noteq> ''regency'' \<and> fst kv \<noteq> ''district'')
          (sp_set ''regency'' val ps)
        = filter (\<lambda>kv. fst kv \<noteq> ''regency'' \<and> fst kv \<noteq> ''district'') ps"
    using filter_sp_set_other [of "\<lambda>k. k \<noteq> ''regency'' \<and> k \<noteq> ''district''" "''regency''" val ps]
    by simp
  moreover have "filter (\<lambda>kv. fst kv \<noteq> ''regency'' \<and> fst kv \<noteq> ''district'')
          (sp_delete ''district'' (sp_set ''regency'' val ps))
        = filter (\<lambda>kv. fst kv \<noteq> ''regency'' \<and> fst kv \<noteq> ''district'')
          (sp_set ''regency'' val ps)"
    by (auto simp: sp_delete_filter intro: filter_cong)
  ultimately show ?thesis using False by (simp add: handleRegChange_def)
qed

lemma handleRegChange_own:
  "val \<noteq> [] \<Longrightarrow>
     filter (\<lambda>kv. fst kv = ''regency'') (handleRegChange val ps) = [(''regency'', val)]"
  "filter (\<lambda>kv. fst kv = ''district'') (handleRegChange val ps) = []"
  "filter (\<lambda>kv. fst kv = ''regency'') (handleRegChange [] ps) = []"
proof -
  have a: "filter (\<lambda>kv. fst kv = ''regency'') (sp_delete ''district'' qs)
        = filter (\<lambda>kv. fst kv = ''regency'') qs" for qs
    by (induction qs) auto
  show "val \<noteq> [] \<Longrightarrow>
     filter (\<lambda>kv. fst kv = ''regency'') (handleRegChange val ps) = [(''regency'', val)]"
    by (simp add: handleRegChange_def a filter_sp_set_own)
  have b: "filter (\<lambda>kv. fst kv = k) (sp_delete k qs) = []" for k qs
    by (induction qs) auto
  show "filter (\<lambda>kv. fst kv = ''district'') (handleRegChange val ps) = []"
    by (simp add: handleRegChange_def b)
  show "filter (\<lambda>kv. fst kv = ''regency'') (handleRegChange [] ps) = []"
    by (simp add: handleRegChange_def a b)
qed

lemma handleDistChange_frame:
  "filter (\<lambda>kv. fst kv \<noteq> ''district'') (handleDistChange val ps)
     = filter (\<lambda>kv. fst kv \<noteq> ''district'') ps"
proof (cases "val = []")
  case True
  then show ?thesis by (simp add: handleDistChange_def sp_delete_filter)
next
  case False
  with filter_sp_set_other [of "\<lambda>k. k \<noteq> ''district''" "''district''" val ps]
  show ?thesis by (simp add: handleDistChange_def)
qed

lemma handleDistChange_own:
  "val \<noteq> [] \<Longrightarrow>
     filter (\<lambda>kv. fst kv = ''district'') (handleDistChange val ps) = [(''district'', val)]"
  "filter (\<lambda>kv. fst kv = ''district'') (handleDistChange [] ps) = []"
proof -
  show "val \<noteq> [] \<Longrightarrow>
     filter (\<lambda>kv. fst kv = ''district'') (handleDistChange val ps) = [(''district'', val)]"
    by (simp add: handleDistChange_def filter_sp_set_own)
  have b: "filter (\<lambda>kv. fst kv = k) (sp_delete k qs) = []" for k qs
    by (induction qs) auto
  show "filter (\<lambda>kv. fst kv = ''district'') (handleDistChange [] ps) = []"
    by (simp add: handleDistChange_def b)
qed

section \<open>Selecting a level\<close>

text \<open>
  C1 (as the code has it). Selecting a non-empty top-level id replaces the whole query
  state by the single pair \<open>province = id\<close>: the top-level id is the new one, and a mid-level
  or bottom-level id encoded before is gone.
\<close>

theorem handleProvChange_replaces:
  "val \<noteq> [] \<Longrightarrow>
     handleProvChange val ps = [(''province'', val)] \<and>
     selectedProvId (handleProvChange val ps) = Some val \<and>
     selectedRegId (handleProvChange val ps) = None \<and>
     selectedDistId (handleProvChange val ps) = None"
  by (simp add: handleProvChange_def selectedProvId_def selectedRegId_def selectedDistId_def)

theorem handleProvChange_replaces_witness:
  "''2'' \<noteq> [] \<and>
   handleProvChange ''2'' [(''province'', ''1''), (''regency'', ''10''), (''district'', ''100'')]
     = [(''province'', ''2'')] \<and>
   selectedRegId (handleProvChange ''2''
     [(''province'', ''1''), (''regency'', ''10''), (''district'', ''100'')]) = None"
proof -
  have n: "''2'' \<noteq> []" by simp
  from handleProvChange_replaces [OF n] n show ?thesis by blast
qed

text \<open>
  C1 as the specification words it fails: with mid-level id 10 and bottom-level id 100
  encoded, selecting the top-level id 2 does not leave them as they were.
\<close>

theorem handleProvChange_keeps_lower_counterexample:
  "\<not> (selectedRegId (handleProvChange ''2''
          [(''province'', ''1''), (''regency'', ''10''), (''district'', ''100'')])
        = selectedRegId [(''province'', ''1''), (''regency'', ''10''), (''district'', ''100'')]
      \<and> selectedDistId (handleProvChange ''2''
          [(''province'', ''1''), (''regency'', ''10''), (''district'', ''100'')])
        = selectedDistId [(''province'', ''1''), (''regency'', ''10''), (''district'', ''100'')])"
  by (simp add: handleProvChange_def selectedRegId_def selectedDistId_def)

text \<open>
  C2. Selecting the empty mid-level value removes the mid-level and the bottom-level id
  and keeps the top-level id; selecting a non-empty mid-level id stores it, removes the
  bottom-level id and keeps the top-level id. This holds for every prior query state,
  also one with repeated names.
\<close>

theorem handleRegChange_cascade:
  "selectedRegId (handleRegChange [] ps) = None \<and>
   selectedDistId (handleRegChange [] ps) = None \<and>
   selectedProvId (handleRegChange [] ps) = selectedProvId ps \<and>
   (val \<noteq> [] \<longrightarrow>
      selectedRegId (handleRegChange val ps) = Some val \<and>
      selectedDistId (handleRegChange val ps) = None \<and>
      selectedProvId (handleRegChange val ps) = selectedProvId ps)"
  by (simp add: handleRegChange_def selectedProvId_def selectedRegId_def selectedDistId_def
      sp_get_delete sp_get_set)

theorem handleRegChange_cascade_witness:
  "selectedRegId (handleRegChange []
      [(''province'', ''1''), (''regency'', ''10''), (''district'', ''100'')]) = None \<and>
   ''11'' \<noteq> [] \<and>
   selectedRegId (handleRegChange ''11''
      [(''province'', ''1''), (''regency'', ''10''), (''district'', ''100'')]) = Some ''11'' \<and>
   selectedDistId (handleRegChange ''11''
      [(''province'', ''1''), (''regency'', ''10''), (''district'', ''100'')]) = None \<and>
   selectedProvId (handleRegChange ''11''
      [(''province'', ''1''), (''regency'', ''10''), (''district'', ''100'')]) = Some ''1''"
proof -
  let ?ps = "[(''province'', ''1''), (''regency'', ''10''), (''district'', ''100'')]"
  have n: "''11'' \<noteq> []" by simp
  have p: "selectedProvId ?ps = Some ''1''" by (simp add: selectedProvId_def)
  from handleRegChange_cascade [of ?ps "''11''"] n p show ?thesis by auto
qed

text \<open>
  C3 (as the code has it). With a bottom-level id encoded, changing the mid-level id to
  another non-empty value removes the bottom-level id, exactly as clearing the mid-level
  id does: no bottom-level pair remains, the one mid-level pair holds the new value, and
  the pairs of every other name stay as they were, in value, number and order.
\<close>

theorem handleRegChange_drops_district:
  "selectedDistId ps = Some d \<Longrightarrow> selectedRegId ps = Some r \<Longrightarrow> val \<noteq> [] \<Longrightarrow> val \<noteq> r \<Longrightarrow>
     selectedDistId (handleRegChange val ps) = None \<and>
     selectedDistId (handleRegChange val ps) = selectedDistId (handleRegChange [] ps) \<and>
     (\<forall>k. k \<noteq> ''regency'' \<and> k \<noteq> ''district'' \<longrightarrow>
        sp_get (handleRegChange val ps) k = sp_get ps k) \<and>
     filter (\<lambda>kv. fst kv = ''district'') (handleRegChange val ps) = [] \<and>
     filter (\<lambda>kv. fst kv = ''regency'') (handleRegChange val ps) = [(''regency'', val)] \<and>
     filter (\<lambda>kv. fst kv \<noteq> ''regency'' \<and> fst kv \<noteq> ''district'') (handleRegChange val ps)
       = filter (\<lambda>kv. fst kv \<noteq> ''regency'' \<and> fst kv \<noteq> ''district'') ps"
proof -
  assume v: "val \<noteq> []"
  have get: "selectedDistId (handleRegChange val ps) = None \<and>
     selectedDistId (handleRegChange val ps) = selectedDistId (handleRegChange [] ps) \<and>
     (\<forall>k. k \<noteq> ''regency'' \<and> k \<noteq> ''district'' \<longrightarrow>
        sp_get (handleRegChange val ps) k = sp_get ps k)"
    by (simp add: handleRegChange_def selectedDistId_def sp_get_delete sp_get_set)
  from get handleRegChange_own(1) [OF v, of ps] handleRegChange_own(2) [of val ps]
    handleRegChange_frame [of val ps]
  show ?thesis by blast
qed

theorem handleRegChange_drops_district_witness:
  "selectedDistId [(''province'', ''1''), (''tab'', ''a''), (''regency'', ''10''),
      (''tab'', ''b''), (''district'', ''100'')] = Some ''100'' \<and>
   selectedRegId [(''province'', ''1''), (''tab'', ''a''), (''regency'', ''10''),
      (''tab'', ''b''), (''district'', ''100'')] = Some ''10'' \<and>
   ''11'' \<noteq> [] \<and> ''11'' \<noteq> ''10'' \<and>
   selectedDistId (handleRegChange ''11''
     [(''province'', ''1''), (''tab'', ''a''), (''regency'', ''10''),
      (''tab'', ''b''), (''district'', ''100'')]) = None \<and>
   filter (\<lambda>kv. fst kv \<noteq> ''regency'' \<and> fst kv \<noteq> ''district'')
     (handleRegChange ''11''
       [(''province'', ''1''), (''tab'', ''a''), (''regency'', ''10''),
        (''tab'', ''b''), (''district'', ''100'')])
     = [(''province'', ''1''), (''tab'', ''a''), (''tab'', ''b'')]"
proof -
  let ?ps = "[(''province'', ''1''), (''tab'', ''a''), (''regency'', ''10''),
      (''tab'', ''b''), (''district'', ''100'')]"
  have d: "selectedDistId ?ps = Some ''100''" by (simp add: selectedDistId_def)
  have r: "selectedRegId ?ps = Some ''10''" by (simp add: selectedRegId_def)
  have n: "''11'' \<noteq> []" and m: "''11'' \<noteq> ''10''" by simp_all
  have f: "filter (\<lambda>kv. fst kv \<noteq> ''regency'' \<and> fst kv \<noteq> ''district'') ?ps
             = [(''province'', ''1''), (''tab'', ''a''), (''tab'', ''b'')]"
    by simp
  from handleRegChange_drops_district [OF d r n m]
  have 1: "selectedDistId (handleRegChange ''11'' ?ps) = None"
    and 2: "filter (\<lambda>kv. fst kv \<noteq> ''regency'' \<and> fst kv \<noteq> ''district'')
              (handleRegChange ''11'' ?ps)
            = filter (\<lambda>kv. fst kv \<noteq> ''regency'' \<and> fst kv \<noteq> ''district'') ?ps"
    by blast+
  from 2 f have 3: "filter (\<lambda>kv. fst kv \<noteq> ''regency'' \<and> fst kv \<noteq> ''district'')
              (handleRegChange ''11'' ?ps)
            = [(''province'', ''1''), (''tab'', ''a''), (''tab'', ''b'')]"
    by (rule trans)
  from d r n m 1 3 show ?thesis by blast
qed

text \<open>
  C3 as the specification words it fails: mid-level id 10 changed to 11 with bottom-level
  id 100 encoded leaves no bottom-level id in the query state.
\<close>

theorem handleRegChange_keeps_district_counterexample:
  "selectedDistId [(''province'', ''1''), (''regency'', ''10''), (''district'', ''100'')]
     = Some ''100'' \<and>
   selectedRegId [(''province'', ''1''), (''regency'', ''10''), (''district'', ''100'')]
     = Some ''10'' \<and>
   \<not> (\<exists>d. selectedDistId (handleRegChange ''11''
     [(''province'', ''1''), (''regency'', ''10''), (''district'', ''100'')]) = Some d)"
  by (simp add: handleRegChange_def selectedDistId_def selectedRegId_def)

text \<open>
  C6. Selecting the empty top-level value and resetting both produce the empty query
  state, whatever was encoded before: none of the three identifiers remains.
\<close>

theorem clear_all:
  "handleProvChange [] ps = [] \<and> handleReset ps = [] \<and>
   selectedProvId (handleProvChange [] ps) = None \<and>
   selectedRegId (handleProvChange [] ps) = None \<and>
   selectedDistId (handleProvChange [] ps) = None \<and>
   selectedProvId (handleReset ps) = None \<and>
   selectedRegId (handleReset ps) = None \<and>
   selectedDistId (handleReset ps) = None"
  by (simp add: handleProvChange_def handleReset_def
      selectedProvId_def selectedRegId_def selectedDistId_def)

section \<open>Decimal digits and the number conversion\<close>

lemma digit_char: "(d::nat) < 10 \<Longrightarrow> is_digit (char_of (48 + d))"
  by (simp add: is_digit_def)

lemma digit_val_char: "(d::nat) < 10 \<Longrightarrow> digit_val (char_of (48 + d)) = d"
  by (simp add: digit_val_def)

lemma digits_of_ne: "digits_of n \<noteq> []"
  by (subst digits_of.simps) simp

lemma digits_of_digits: "list_all is_digit (digits_of n)"
  by (induction n rule: digits_of.induct) (subst digits_of.simps, simp add: digit_char)

lemma dec_value_snoc: "dec_value (ds @ [c]) = 10 * dec_value ds + digit_val c"
  by (simp add: dec_value_def)

lemma dec_value_digits_of: "dec_value (digits_of n) = n"
proof (induction n rule: digits_of.induct)
  case (1 n)
  show ?case
  proof (cases "n < 10")
    case True
    then show ?thesis
      by (subst digits_of.simps) (simp add: dec_value_def digit_val_char)
  next
    case False
    with 1 have "dec_value (digits_of (n div 10)) = n div 10" by simp
    with False show ?thesis
      by (subst digits_of.simps) (simp add: dec_value_snoc digit_val_char)
  qed
qed

lemma not_dec_minus: "\<not> is_dec (CHR ''-'' # ds)"
  by (simp add: is_dec_def is_digit_def)

lemma Number_dec:
  "is_dec s \<Longrightarrow> dec_value s \<le> MAX_SAFE_INTEGER \<Longrightarrow> Number other (Some s) = Num (int (dec_value s))"
  by (auto simp: Number_def is_dec_def)

lemma Number_minus_dec:
  "is_dec ds \<Longrightarrow> dec_value ds \<le> MAX_SAFE_INTEGER \<Longrightarrow>
     Number other (Some (CHR ''-'' # ds)) = Num (- int (dec_value ds))"
  by (simp add: Number_def not_dec_minus)

lemma is_dec_digits_of: "is_dec (digits_of n)"
  by (simp add: is_dec_def digits_of_ne digits_of_digits)

text \<open>
  An identifier up to \<^verbatim>\<open>Number.MAX_SAFE_INTEGER\<close> in magnitude comes back from the value of
  its option element unchanged.
\<close>

lemma Number_option_value:
  assumes "\<bar>n\<bar> \<le> int MAX_SAFE_INTEGER"
  shows "Number other (Some (option_value n)) = Num n"
proof (cases "n < 0")
  case False
  with assms have "nat n \<le> MAX_SAFE_INTEGER" by linarith
  then have "Number other (Some (digits_of (nat n))) = Num (int (nat n))"
    using Number_dec [OF is_dec_digits_of, of "nat n" other] by (simp add: dec_value_digits_of)
  with False show ?thesis by (simp add: option_value_def)
next
  case True
  with assms have "nat (- n) \<le> MAX_SAFE_INTEGER" by linarith
  then have "Number other (Some (CHR ''-'' # digits_of (nat (- n)))) = Num (- int (nat (- n)))"
    using Number_minus_dec [OF is_dec_digits_of, of "nat (- n)" other]
    by (simp add: dec_value_digits_of)
  with True show ?thesis by (simp add: option_value_def)
qed

lemma option_value_ne: "option_value n \<noteq> []"
  by (simp add: option_value_def digits_of_ne)

section \<open>Comparing with a converted identifier\<close>

lemma strict_eq_Num: "(\<lambda>x. strict_eq (f x) (Num n)) = (\<lambda>x. f x = n)"
  by (rule ext) simp

lemma strict_eq_NaN: "(\<lambda>x. strict_eq (f x) NaN) = (\<lambda>x. False)"
  by (rule ext) simp

lemma find_False: "find (\<lambda>x. False) xs = None"
  by (induction xs) simp_all

lemma find_unique:
  assumes "e \<in> set xs" and "P e" and "\<forall>x \<in> set xs. P x \<longrightarrow> x = e"
  shows "find P xs = Some e"
proof (cases "find P xs")
  case None
  with assms(1,2) show ?thesis by (simp add: find_None_iff)
next
  case (Some y)
  then have "y \<in> set xs" and "P y" by (auto simp: find_Some_iff)
  with assms(3) have "y = e" by blast
  with Some show ?thesis by simp
qed

lemma find_unmatched: "\<forall>x \<in> set xs. \<not> P x \<Longrightarrow> find P xs = None"
  by (simp add: find_None_iff)

section \<open>Candidate lists and labels\<close>

text \<open>
  C4. The mid-level candidate list is empty when no top-level id is selected (the
  parameter is missing or empty) and when the selected value converts to no number;
  otherwise it is the list of exactly those mid-level entities of the dataset whose
  \<open>province_id\<close> is the selected top-level id, in the order of the dataset.
\<close>

theorem availableRegencies_exact:
  "(falsy (selectedProvId ps) \<longrightarrow> availableRegencies other data ps = []) \<and>
   (Number other (selectedProvId ps) = NaN \<longrightarrow> availableRegencies other data ps = []) \<and>
   (\<not> falsy (selectedProvId ps) \<and> Number other (selectedProvId ps) = Num n \<longrightarrow>
      availableRegencies other data ps = filter (\<lambda>r. province_id r = n) (regencies data))"
  by (simp add: availableRegencies_def strict_eq_Num strict_eq_NaN)

theorem availableRegencies_exact_witness:
  "\<not> falsy (selectedProvId [(''province'', ''1'')]) \<and>
   Number (\<lambda>s. NaN) (selectedProvId [(''province'', ''1'')]) = Num 1 \<and>
   availableRegencies (\<lambda>s. NaN)
     \<lparr>provinces = [\<lparr>ident = 1, name = ''A''\<rparr>],
      regencies = [\<lparr>ident = 10, name = ''B'', province_id = 1\<rparr>,
                   \<lparr>ident = 20, name = ''D'', province_id = 2\<rparr>],
      districts = [\<lparr>ident = 100, name = ''C'', regency_id = 10\<rparr>]\<rparr>
     [(''province'', ''1'')]
     = [\<lparr>ident = 10, name = ''B'', province_id = 1\<rparr>] \<and>
   falsy (selectedProvId []) \<and>
   availableRegencies (\<lambda>s. NaN)
     \<lparr>provinces = [\<lparr>ident = 1, name = ''A''\<rparr>],
      regencies = [\<lparr>ident = 10, name = ''B'', province_id = 1\<rparr>,
                   \<lparr>ident = 20, name = ''D'', province_id = 2\<rparr>],
      districts = [\<lparr>ident = 100, name = ''C'', regency_id = 10\<rparr>]\<rparr>
     [] = []"
proof -
  let ?D = "\<lparr>provinces = [\<lparr>ident = 1, name = ''A''\<rparr>],
      regencies = [\<lparr>ident = 10, name = ''B'', province_id = 1\<rparr>,
                   \<lparr>ident = 20, name = ''D'', province_id = 2\<rparr>],
      districts = [\<lparr>ident = 100, name = ''C'', regency_id = 10\<rparr>]\<rparr>"
  have a: "\<not> falsy (selectedProvId [(''province'', ''1'')])"
    by (simp add: selectedProvId_def)
  have b: "Number (\<lambda>s. NaN) (selectedProvId [(''province'', ''1'')]) = Num 1"
    by (simp add: selectedProvId_def Number_def is_dec_def is_digit_def dec_value_def
        digit_val_def MAX_SAFE_INTEGER_def)
  have c: "falsy (selectedProvId [])"
    by (simp add: selectedProvId_def)
  from availableRegencies_exact [of "[(''province'', ''1'')]" "\<lambda>s. NaN" ?D 1] a b
  have d: "availableRegencies (\<lambda>s. NaN) ?D [(''province'', ''1'')]
             = [\<lparr>ident = 10, name = ''B'', province_id = 1\<rparr>]"
    by simp
  from availableRegencies_exact [of "[]" "\<lambda>s. NaN" ?D 1] c
  have e: "availableRegencies (\<lambda>s. NaN) ?D [] = []"
    by blast
  from a b c d e show ?thesis by blast
qed

text \<open>
  The label of a level is the name of the entity whose identifier is the converted
  selection when exactly one entity has it, and undefined when none has it.
\<close>

lemma provName_unique:
  assumes "Number other (selectedProvId ps) = Num n"
    and "p \<in> set (provinces data)" and "ident p = n"
    and "\<forall>q \<in> set (provinces data). ident q = n \<longrightarrow> q = p"
  shows "provName other data ps = Some (name p)"
proof -
  have "find (\<lambda>q. ident q = n) (provinces data) = Some p"
  proof (rule find_unique)
    show "p \<in> set (provinces data)" by fact
    show "ident p = n" by fact
    show "\<forall>q \<in> set (provinces data). ident q = n \<longrightarrow> q = p" by fact
  qed
  with assms(1) show ?thesis by (simp add: provName_def strict_eq_Num)
qed

lemma provName_unmatched:
  assumes "\<forall>q \<in> set (provinces data). \<not> strict_eq (ident q) (Number other (selectedProvId ps))"
  shows "provName other data ps = None"
  using assms by (simp add: provName_def find_unmatched)

text \<open>
  C5. With no top-level id in the query state, \<^verbatim>\<open>Number(null)\<close> is 0 and the label lookup
  compares every identifier with 0: a dataset with an entity of identifier 0 gets that
  entity's name as the label of a level at which nothing is selected. The candidate
  lists test \<^verbatim>\<open>!selectedProvId\<close> first; the three label lookups do not.
\<close>

theorem label_of_absent_selection_is_zero_entity:
  "selectedProvId [] = None \<and> selectedRegId [] = None \<and> selectedDistId [] = None \<and>
   provName (\<lambda>s. NaN)
     \<lparr>provinces = [\<lparr>ident = 0, name = ''A''\<rparr>],
      regencies = [\<lparr>ident = 0, name = ''B'', province_id = 0\<rparr>],
      districts = [\<lparr>ident = 0, name = ''C'', regency_id = 0\<rparr>]\<rparr> [] = Some ''A'' \<and>
   regName (\<lambda>s. NaN)
     \<lparr>provinces = [\<lparr>ident = 0, name = ''A''\<rparr>],
      regencies = [\<lparr>ident = 0, name = ''B'', province_id = 0\<rparr>],
      districts = [\<lparr>ident = 0, name = ''C'', regency_id = 0\<rparr>]\<rparr> [] = Some ''B'' \<and>
   distName (\<lambda>s. NaN)
     \<lparr>provinces = [\<lparr>ident = 0, name = ''A''\<rparr>],
      regencies = [\<lparr>ident = 0, name = ''B'', province_id = 0\<rparr>],
      districts = [\<lparr>ident = 0, name = ''C'', regency_id = 0\<rparr>]\<rparr> [] = Some ''C'' \<and>
   availableRegencies (\<lambda>s. NaN)
     \<lparr>provinces = [\<lparr>ident = 0, name = ''A''\<rparr>],
      regencies = [\<lparr>ident = 0, name = ''B'', province_id = 0\<rparr>],
      districts = [\<lparr>ident = 0, name = ''C'', regency_id = 0\<rparr>]\<rparr> [] = []"
  by (simp add: selectedProvId_def selectedRegId_def selectedDistId_def provName_def
      regName_def distName_def availableRegencies_def Number_def)

text \<open>
  C10. The bottom-level label depends on the query state through the bottom-level id
  alone, and the bottom-level candidate list through the mid-level id alone: two states
  that agree there give the same result whatever they hold, or lack, at the levels
  above. A state with a bottom-level id and nothing else still yields the label of the
  entity with that id.
\<close>

theorem lower_levels_unchecked:
  "(selectedDistId ps1 = selectedDistId ps2 \<longrightarrow>
      distName other data ps1 = distName other data ps2) \<and>
   (selectedRegId ps1 = selectedRegId ps2 \<longrightarrow>
      availableDistricts other data ps1 = availableDistricts other data ps2) \<and>
   (Number other (selectedDistId ps1) = Num n \<and>
    find (\<lambda>d. ident d = n) (districts data) = Some e \<longrightarrow>
      distName other data ps1 = Some (name e))"
  by (simp add: distName_def availableDistricts_def strict_eq_Num)

theorem lower_levels_unchecked_witness:
  "selectedDistId [(''district'', ''100'')]
     = selectedDistId [(''province'', ''1''), (''regency'', ''10''), (''district'', ''100'')] \<and>
   selectedProvId [(''district'', ''100'')] = None \<and>
   selectedRegId [(''district'', ''100'')] = None \<and>
   distName (\<lambda>s. NaN)
     \<lparr>provinces = [\<lparr>ident = 1, name = ''A''\<rparr>],
      regencies = [\<lparr>ident = 10, name = ''B'', province_id = 1\<rparr>],
      districts = [\<lparr>ident = 100, name = ''C'', regency_id = 10\<rparr>]\<rparr>
     [(''district'', ''100'')] = Some ''C'' \<and>
   distName (\<lambda>s. NaN)
     \<lparr>provinces = [\<lparr>ident = 1, name = ''A''\<rparr>],
      regencies = [\<lparr>ident = 10, name = ''B'', province_id = 1\<rparr>],
      districts = [\<lparr>ident = 100, name = ''C'', regency_id = 10\<rparr>]\<rparr>
     [(''province'', ''1''), (''regency'', ''10''), (''district'', ''100'')] = Some ''C''"
proof -
  let ?D = "\<lparr>provinces = [\<lparr>ident = 1, name = ''A''\<rparr>],
      regencies = [\<lparr>ident = 10, name = ''B'', province_id = 1\<rparr>],
      districts = [\<lparr>ident = 100, name = ''C'', regency_id = 10\<rparr>]\<rparr>"
  let ?e = "\<lparr>ident = 100, name = ''C'', regency_id = 10\<rparr>"
  let ?p1 = "[(''district'', ''100'')]"
  let ?p2 = "[(''province'', ''1''), (''regency'', ''10''), (''district'', ''100'')]"
  have a: "selectedDistId ?p1 = selectedDistId ?p2" by (simp add: selectedDistId_def)
  have b: "selectedProvId ?p1 = None" "selectedRegId ?p1 = None"
    by (simp_all add: selectedProvId_def selectedRegId_def)
  have c: "Number (\<lambda>s. NaN) (selectedDistId ?p1) = Num 100"
    by (simp add: selectedDistId_def Number_def is_dec_def is_digit_def dec_value_def
        digit_val_def MAX_SAFE_INTEGER_def)
  have d: "find (\<lambda>d. ident d = 100) (districts ?D) = Some ?e" by simp
  from lower_levels_unchecked [of ?p1 ?p2 "\<lambda>s. NaN" ?D 100 ?e] a c d
  have "distName (\<lambda>s. NaN) ?D ?p1 = distName (\<lambda>s. NaN) ?D ?p2"
    and "distName (\<lambda>s. NaN) ?D ?p1 = Some (name ?e)"
    by blast+
  with a b show ?thesis by simp
qed

section \<open>The loader\<close>

text \<open>
  C8. The loader's promise is fulfilled for every outcome of the fetch, never rejected. A
  rejected request, a response that is not \<open>ok\<close> and a body that does not parse each
  yield the dataset of three empty lists, and from that dataset every candidate list is
  empty and every label undefined, whatever is selected.
\<close>

theorem regionLoader_recovers:
  "(\<exists>d. regionLoader outcome = Inr d) \<and>
   regionLoader Rejected = Inr no_data \<and>
   regionLoader (Response False body) = Inr no_data \<and>
   regionLoader (Response True None) = Inr no_data \<and>
   (\<forall>e. try_load outcome = Inl e \<longrightarrow> regionLoader outcome = Inr no_data) \<and>
   no_data = \<lparr>provinces = [], regencies = [], districts = []\<rparr> \<and>
   availableRegencies other no_data ps = [] \<and>
   availableDistricts other no_data ps = [] \<and>
   provName other no_data ps = None \<and>
   regName other no_data ps = None \<and>
   distName other no_data ps = None"
  by (simp add: regionLoader_def no_data_def availableRegencies_def availableDistricts_def
      provName_def regName_def distName_def split: sum.splits)

theorem regionLoader_recovers_witness:
  "try_load (Response True None) = Inl ParseFailure \<and>
   regionLoader (Response True None) = Inr no_data \<and>
   availableRegencies (\<lambda>s. NaN) no_data [(''province'', ''1'')] = [] \<and>
   provName (\<lambda>s. NaN) no_data [(''province'', ''1'')] = None"
proof -
  have a: "try_load (Response True None) = Inl ParseFailure" by simp
  from regionLoader_recovers [of "Response True None" None "\<lambda>s. NaN" "[(''province'', ''1'')]"] a
  show ?thesis by blast
qed

section \<open>Encoding and decoding the selection\<close>

lemma sp_delete_all: "list_all Q ps \<Longrightarrow> list_all Q (sp_delete k ps)"
  by (induction ps) auto

lemma sp_set_all: "list_all Q ps \<Longrightarrow> Q (k, v) \<Longrightarrow> list_all Q (sp_set k v ps)"
  by (induction ps) (auto simp: sp_delete_all)

lemma handlers_compose:
  "handleDistChange d (handleRegChange r (handleProvChange p ps))
     = filter (\<lambda>kv. snd kv \<noteq> []) [(''province'', p), (''regency'', r), (''district'', d)]"
  by (simp add: handleDistChange_def handleRegChange_def handleProvChange_def)

lemma handlers_keep_nonempty:
  assumes "list_all (\<lambda>kv. snd kv \<noteq> []) qs"
  shows "list_all (\<lambda>kv. snd kv \<noteq> []) (handleProvChange v qs)"
    and "list_all (\<lambda>kv. snd kv \<noteq> []) (handleRegChange v qs)"
    and "list_all (\<lambda>kv. snd kv \<noteq> []) (handleDistChange v qs)"
    and "list_all (\<lambda>kv. snd kv \<noteq> []) (handleReset qs)"
  using assms
  by (simp_all add: handleProvChange_def handleRegChange_def handleDistChange_def
      handleReset_def sp_delete_all sp_set_all)

lemma NaN_selects_nothing:
  "Number other (selectedProvId qs) = NaN \<Longrightarrow>
     availableRegencies other data qs = [] \<and> provName other data qs = None"
  "Number other (selectedRegId qs) = NaN \<Longrightarrow>
     availableDistricts other data qs = [] \<and> regName other data qs = None"
  "Number other (selectedDistId qs) = NaN \<Longrightarrow> distName other data qs = None"
  by (simp_all add: availableRegencies_def availableDistricts_def provName_def regName_def
      distName_def strict_eq_NaN find_False)

lemma falsy_selects_nothing:
  "falsy (selectedProvId qs) \<Longrightarrow> availableRegencies other data qs = []"
  "falsy (selectedRegId qs) \<Longrightarrow> availableDistricts other data qs = []"
  by (simp_all add: availableRegencies_def availableDistricts_def)

text \<open>
  C7 (as the code has it). Writing a selection through the three handlers and reading it
  back gives the identifiers that were written: the query state holds exactly the pairs
  of the levels with a non-empty value, in the order top, mid, bottom. An identifier up
  to \<^verbatim>\<open>Number.MAX_SAFE_INTEGER\<close> in magnitude, written as the value of its option element,
  is read back as the same number. A value that converts to \<^verbatim>\<open>NaN\<close> selects nothing: the
  candidate list is empty and the label undefined; a missing or empty value gives the
  empty candidate list. A handler stores its own pair for a non-empty value only and
  removes it otherwise, so a query state without empty values stays without them. The
  mid-level and bottom-level handlers copy the pairs of every other name through as
  they are, whatever their values.
\<close>

theorem query_roundtrip:
  "(let ps' = handleDistChange d (handleRegChange r (handleProvChange p ps)) in
      ps' = filter (\<lambda>kv. snd kv \<noteq> []) [(''province'', p), (''regency'', r), (''district'', d)] \<and>
      selectedProvId ps' = (if p = [] then None else Some p) \<and>
      selectedRegId ps' = (if r = [] then None else Some r) \<and>
      selectedDistId ps' = (if d = [] then None else Some d) \<and>
      list_all (\<lambda>kv. snd kv \<noteq> []) ps') \<and>
   (v \<noteq> [] \<longrightarrow>
      selectedDistId (handleDistChange v qs) = Some v \<and>
      selectedRegId (handleDistChange v qs) = selectedRegId qs \<and>
      selectedProvId (handleDistChange v qs) = selectedProvId qs) \<and>
   selectedDistId (handleDistChange [] qs) = None \<and>
   selectedRegId (handleDistChange [] qs) = selectedRegId qs \<and>
   selectedProvId (handleDistChange [] qs) = selectedProvId qs \<and>
   (\<bar>n\<bar> \<le> int MAX_SAFE_INTEGER \<longrightarrow>
      Number other (selectedProvId (handleProvChange (option_value n) qs)) = Num n \<and>
      Number other (selectedRegId (handleRegChange (option_value n) qs)) = Num n \<and>
      Number other (selectedDistId (handleDistChange (option_value n) qs)) = Num n) \<and>
   (Number other (selectedProvId qs) = NaN \<longrightarrow>
      availableRegencies other data qs = [] \<and> provName other data qs = None) \<and>
   (Number other (selectedRegId qs) = NaN \<longrightarrow>
      availableDistricts other data qs = [] \<and> regName other data qs = None) \<and>
   (Number other (selectedDistId qs) = NaN \<longrightarrow> distName other data qs = None) \<and>
   (falsy (selectedProvId qs) \<longrightarrow> availableRegencies other data qs = []) \<and>
   (falsy (selectedRegId qs) \<longrightarrow> availableDistricts other data qs = []) \<and>
   (list_all (\<lambda>kv. snd kv \<noteq> []) qs \<longrightarrow>
      list_all (\<lambda>kv. snd kv \<noteq> []) (handleProvChange v qs) \<and>
      list_all (\<lambda>kv. snd kv \<noteq> []) (handleRegChange v qs) \<and>
      list_all (\<lambda>kv. snd kv \<noteq> []) (handleDistChange v qs) \<and>
      list_all (\<lambda>kv. snd kv \<noteq> []) (handleReset qs)) \<and>
   (v \<noteq> [] \<longrightarrow>
      filter (\<lambda>kv. fst kv = ''regency'') (handleRegChange v qs) = [(''regency'', v)] \<and>
      filter (\<lambda>kv. fst kv = ''district'') (handleDistChange v qs) = [(''district'', v)]) \<and>
   filter (\<lambda>kv. fst kv = ''regency'') (handleRegChange [] qs) = [] \<and>
   filter (\<lambda>kv. fst kv = ''district'') (handleRegChange v qs) = [] \<and>
   filter (\<lambda>kv. fst kv = ''district'') (handleDistChange [] qs) = [] \<and>
   filter (\<lambda>kv. fst kv \<noteq> ''regency'' \<and> fst kv \<noteq> ''district'') (handleRegChange v qs)
     = filter (\<lambda>kv. fst kv \<noteq> ''regency'' \<and> fst kv \<noteq> ''district'') qs \<and>
   filter (\<lambda>kv. fst kv \<noteq> ''district'') (handleDistChange v qs)
     = filter (\<lambda>kv. fst kv \<noteq> ''district'') qs"
proof -
  have compose: "let ps' = handleDistChange d (handleRegChange r (handleProvChange p ps)) in
      ps' = filter (\<lambda>kv. snd kv \<noteq> []) [(''province'', p), (''regency'', r), (''district'', d)] \<and>
      selectedProvId ps' = (if p = [] then None else Some p) \<and>
      selectedRegId ps' = (if r = [] then None else Some r) \<and>
      selectedDistId ps' = (if d = [] then None else Some d) \<and>
      list_all (\<lambda>kv. snd kv \<noteq> []) ps'"
    unfolding handlers_compose Let_def
    by (simp add: selectedProvId_def selectedRegId_def selectedDistId_def)
  have single: "v \<noteq> [] \<longrightarrow>
      selectedDistId (handleDistChange v qs) = Some v \<and>
      selectedRegId (handleDistChange v qs) = selectedRegId qs \<and>
      selectedProvId (handleDistChange v qs) = selectedProvId qs"
    by (simp add: handleDistChange_def selectedProvId_def selectedRegId_def selectedDistId_def
        sp_get_set)
  have cleared: "selectedDistId (handleDistChange [] qs) = None"
    "selectedRegId (handleDistChange [] qs) = selectedRegId qs"
    "selectedProvId (handleDistChange [] qs) = selectedProvId qs"
    by (simp_all add: handleDistChange_def selectedProvId_def selectedRegId_def
        selectedDistId_def sp_get_delete)
  have numeric: "\<bar>n\<bar> \<le> int MAX_SAFE_INTEGER \<longrightarrow>
      Number other (selectedProvId (handleProvChange (option_value n) qs)) = Num n \<and>
      Number other (selectedRegId (handleRegChange (option_value n) qs)) = Num n \<and>
      Number other (selectedDistId (handleDistChange (option_value n) qs)) = Num n"
    by (simp add: handleProvChange_def handleRegChange_def handleDistChange_def
        selectedProvId_def selectedRegId_def selectedDistId_def sp_get_set sp_get_delete
        option_value_ne Number_option_value)
  have own: "v \<noteq> [] \<longrightarrow>
      filter (\<lambda>kv. fst kv = ''regency'') (handleRegChange v qs) = [(''regency'', v)] \<and>
      filter (\<lambda>kv. fst kv = ''district'') (handleDistChange v qs) = [(''district'', v)]"
    by (simp add: handleRegChange_own(1) handleDistChange_own(1))
  have first: "(let ps' = handleDistChange d (handleRegChange r (handleProvChange p ps)) in
      ps' = filter (\<lambda>kv. snd kv \<noteq> []) [(''province'', p), (''regency'', r), (''district'', d)] \<and>
      selectedProvId ps' = (if p = [] then None else Some p) \<and>
      selectedRegId ps' = (if r = [] then None else Some r) \<and>
      selectedDistId ps' = (if d = [] then None else Some d) \<and>
      list_all (\<lambda>kv. snd kv \<noteq> []) ps') \<and>
   (v \<noteq> [] \<longrightarrow>
      selectedDistId (handleDistChange v qs) = Some v \<and>
      selectedRegId (handleDistChange v qs) = selectedRegId qs \<and>
      selectedProvId (handleDistChange v qs) = selectedProvId qs) \<and>
   selectedDistId (handleDistChange [] qs) = None \<and>
   selectedRegId (handleDistChange [] qs) = selectedRegId qs \<and>
   selectedProvId (handleDistChange [] qs) = selectedProvId qs \<and>
   (\<bar>n\<bar> \<le> int MAX_SAFE_INTEGER \<longrightarrow>
      Number other (selectedProvId (handleProvChange (option_value n) qs)) = Num n \<and>
      Number other (selectedRegId (handleRegChange (option_value n) qs)) = Num n \<and>
      Number other (selectedDistId (handleDistChange (option_value n) qs)) = Num n)"
    using compose single cleared numeric by blast
  have second: "(Number other (selectedProvId qs) = NaN \<longrightarrow>
      availableRegencies other data qs = [] \<and> provName other data qs = None) \<and>
   (Number other (selectedRegId qs) = NaN \<longrightarrow>
      availableDistricts other data qs = [] \<and> regName other data qs = None) \<and>
   (Number other (selectedDistId qs) = NaN \<longrightarrow> distName other data qs = None) \<and>
   (falsy (selectedProvId qs) \<longrightarrow> availableRegencies other data qs = []) \<and>
   (falsy (selectedRegId qs) \<longrightarrow> availableDistricts other data qs = []) \<and>
   (list_all (\<lambda>kv. snd kv \<noteq> []) qs \<longrightarrow>
      list_all (\<lambda>kv. snd kv \<noteq> []) (handleProvChange v qs) \<and>
      list_all (\<lambda>kv. snd kv \<noteq> []) (handleRegChange v qs) \<and>
      list_all (\<lambda>kv. snd kv \<noteq> []) (handleDistChange v qs) \<and>
      list_all (\<lambda>kv. snd kv \<noteq> []) (handleReset qs))"
    using NaN_selects_nothing [of other qs data] falsy_selects_nothing [of qs other data]
      handlers_keep_nonempty [of qs]
    by blast
  have third: "(v \<noteq> [] \<longrightarrow>
      filter (\<lambda>kv. fst kv = ''regency'') (handleRegChange v qs) = [(''regency'', v)] \<and>
      filter (\<lambda>kv. fst kv = ''district'') (handleDistChange v qs) = [(''district'', v)]) \<and>
   filter (\<lambda>kv. fst kv = ''regency'') (handleRegChange [] qs) = [] \<and>
   filter (\<lambda>kv. fst kv = ''district'') (handleRegChange v qs) = [] \<and>
   filter (\<lambda>kv. fst kv = ''district'') (handleDistChange [] qs) = [] \<and>
   filter (\<lambda>kv. fst kv \<noteq> ''regency'' \<and> fst kv \<noteq> ''district'') (handleRegChange v qs)
     = filter (\<lambda>kv. fst kv \<noteq> ''regency'' \<and> fst kv \<noteq> ''district'') qs \<and>
   filter (\<lambda>kv. fst kv \<noteq> ''district'') (handleDistChange v qs)
     = filter (\<lambda>kv. fst kv \<noteq> ''district'') qs"
    using own handleRegChange_own(3) [of qs] handleRegChange_own(2) [of v qs]
      handleDistChange_own(2) [of qs] handleRegChange_frame [of v qs]
      handleDistChange_frame [of v qs]
    by blast
  from first second third show ?thesis by blast
qed

theorem query_roundtrip_witness:
  "handleDistChange ''100'' (handleRegChange ''10'' (handleProvChange ''1'' []))
     = [(''province'', ''1''), (''regency'', ''10''), (''district'', ''100'')] \<and>
   handleDistChange [] (handleRegChange ''10'' (handleProvChange ''1'' []))
     = [(''province'', ''1''), (''regency'', ''10'')] \<and>
   ''100'' \<noteq> [] \<and>
   selectedDistId (handleDistChange ''100'' [(''province'', ''1''), (''regency'', ''10'')])
     = Some ''100'' \<and>
   \<bar>100\<bar> \<le> int MAX_SAFE_INTEGER \<and>
   Number (\<lambda>s. NaN) (selectedDistId (handleDistChange (option_value 100)
       [(''province'', ''1''), (''regency'', ''10'')])) = Num 100 \<and>
   Number (\<lambda>s. NaN) (selectedProvId [(''province'', ''jakarta'')]) = NaN \<and>
   availableRegencies (\<lambda>s. NaN)
     \<lparr>provinces = [\<lparr>ident = 1, name = ''A''\<rparr>],
      regencies = [\<lparr>ident = 10, name = ''B'', province_id = 1\<rparr>],
      districts = []\<rparr> [(''province'', ''jakarta'')] = [] \<and>
   falsy (selectedProvId [(''province'', []), (''regency'', ''10'')]) \<and>
   availableRegencies (\<lambda>s. NaN)
     \<lparr>provinces = [\<lparr>ident = 1, name = ''A''\<rparr>],
      regencies = [\<lparr>ident = 10, name = ''B'', province_id = 1\<rparr>],
      districts = []\<rparr> [(''province'', []), (''regency'', ''10'')] = [] \<and>
   filter (\<lambda>kv. fst kv \<noteq> ''district'')
     (handleDistChange ''100'' [(''province'', []), (''regency'', ''10'')])
     = [(''province'', []), (''regency'', ''10'')] \<and>
   list_all (\<lambda>kv. snd kv \<noteq> []) [(''province'', ''1''), (''regency'', ''10'')] \<and>
   list_all (\<lambda>kv. snd kv \<noteq> [])
     (handleDistChange ''100'' [(''province'', ''1''), (''regency'', ''10'')])"
proof -
  let ?qs = "[(''province'', ''1''), (''regency'', ''10'')]"
  let ?bad = "[(''province'', ''jakarta'')]"
  let ?gap = "[(''province'', []), (''regency'', ''10'')]"
  let ?D = "\<lparr>provinces = [\<lparr>ident = 1, name = ''A''\<rparr>],
      regencies = [\<lparr>ident = 10, name = ''B'', province_id = 1\<rparr>],
      districts = []\<rparr>"
  have v: "''100'' \<noteq> []" by simp
  have n: "\<bar>100\<bar> \<le> int MAX_SAFE_INTEGER" by (simp add: MAX_SAFE_INTEGER_def)
  have nan: "Number (\<lambda>s. NaN) (selectedProvId ?bad) = NaN"
    by (simp add: selectedProvId_def Number_def is_dec_def is_digit_def unnumeric_def)
  have inv: "list_all (\<lambda>kv. snd kv \<noteq> []) ?qs" by simp
  have emp: "falsy (selectedProvId ?gap)" by (simp add: selectedProvId_def)
  have keep: "filter (\<lambda>kv. fst kv \<noteq> ''district'') ?gap = ?gap" by simp
  from query_roundtrip [of "''100''" "''10''" "''1''" "[]" "''100''" ?qs 100 "\<lambda>s. NaN" ?D]
  have 1: "handleDistChange ''100'' (handleRegChange ''10'' (handleProvChange ''1'' []))
     = [(''province'', ''1''), (''regency'', ''10''), (''district'', ''100'')]"
    by (simp add: Let_def)
  from query_roundtrip [of "[]" "''10''" "''1''" "[]" "''100''" ?qs 100 "\<lambda>s. NaN" ?D]
  have 2: "handleDistChange [] (handleRegChange ''10'' (handleProvChange ''1'' []))
     = [(''province'', ''1''), (''regency'', ''10'')]"
    by (simp add: Let_def)
  from query_roundtrip [of "''100''" "''10''" "''1''" "[]" "''100''" ?qs 100 "\<lambda>s. NaN" ?D] v n inv
  have 3: "selectedDistId (handleDistChange ''100'' ?qs) = Some ''100''"
    and 4: "Number (\<lambda>s. NaN) (selectedDistId (handleDistChange (option_value 100) ?qs)) = Num 100"
    and 5: "list_all (\<lambda>kv. snd kv \<noteq> []) (handleDistChange ''100'' ?qs)"
    by blast+
  from query_roundtrip [of "''100''" "''10''" "''1''" "[]" "''100''" ?bad 100 "\<lambda>s. NaN" ?D] nan
  have 6: "availableRegencies (\<lambda>s. NaN) ?D ?bad = []"
    by blast
  from query_roundtrip [of "''100''" "''10''" "''1''" "[]" "''100''" ?gap 100 "\<lambda>s. NaN" ?D] emp
  have 7: "availableRegencies (\<lambda>s. NaN) ?D ?gap = []"
    and 8: "filter (\<lambda>kv. fst kv \<noteq> ''district'') (handleDistChange ''100'' ?gap)
              = filter (\<lambda>kv. fst kv \<noteq> ''district'') ?gap"
    by blast+
  from 8 keep have 9: "filter (\<lambda>kv. fst kv \<noteq> ''district'') (handleDistChange ''100'' ?gap)
              = ?gap"
    by (rule trans)
  from 1 2 v 3 n 4 nan 6 emp 7 9 inv 5 show ?thesis by blast
qed

text \<open>
  C7 as the specification words it fails. The address \<^verbatim>\<open>?province=&regency=5\<close> has no
  top-level id selected and the mid-level id 5; selecting the bottom-level id 100 there
  writes the empty-valued \<open>province\<close> pair back into the query state. The empty value is
  also no absent identifier for the label: it converts to 0 and finds the entity with
  identifier 0.
\<close>

theorem empty_value_persists_counterexample:
  "falsy (selectedProvId [(''province'', []), (''regency'', ''5'')]) \<and>
   selectedRegId [(''province'', []), (''regency'', ''5'')] = Some ''5'' \<and>
   handleDistChange ''100'' [(''province'', []), (''regency'', ''5'')]
     = [(''province'', []), (''regency'', ''5''), (''district'', ''100'')] \<and>
   (''province'', []) \<in> set (handleDistChange ''100'' [(''province'', []), (''regency'', ''5'')]) \<and>
   provName (\<lambda>s. NaN)
     \<lparr>provinces = [\<lparr>ident = 0, name = ''A''\<rparr>], regencies = [], districts = []\<rparr>
     [(''province'', []), (''regency'', ''5'')] = Some ''A''"
  by (simp add: selectedProvId_def selectedRegId_def handleDistChange_def provName_def
      Number_def)

section \<open>The loading flag\<close>

lemma step_armed:
  "loading h \<Longrightarrow> timeout h = Some r \<Longrightarrow> elapsed [ev] < r \<Longrightarrow>
     loading (step delay h ev) \<and> timeout (step delay h ev) = Some (r - elapsed [ev])"
  by (cases ev) (simp_all add: start_def setLoading_def elapse_def)

lemma run_armed:
  "loading h \<Longrightarrow> timeout h = Some r \<Longrightarrow> elapsed evs < r \<Longrightarrow>
     loading (run delay h evs) \<and> timeout (run delay h evs) = Some (r - elapsed evs)"
proof (induction evs arbitrary: h r)
  case Nil
  then show ?case by (simp add: run_def)
next
  case (Cons ev evs)
  have split: "elapsed (ev # evs) = elapsed [ev] + elapsed evs"
    by (cases ev) simp_all
  with Cons.prems have a: "elapsed [ev] < r" and b: "elapsed evs < r - elapsed [ev]"
    by simp_all
  from step_armed [OF Cons.prems(1,2) a]
  have l: "loading (step delay h ev)" and t: "timeout (step delay h ev) = Some (r - elapsed [ev])"
    by simp_all
  from Cons.IH [OF l t b] split show ?case
    by (simp add: run_def)
qed

lemma start_idle: "loading (start delay idle) \<and> timeout (start delay idle) = Some delay"
  by (simp add: start_def setLoading_def effect_def idle_def)

text \<open>
  C9 (as the code has it). A selection change while the flag is already active changes
  nothing: the pending timeout keeps running and is not restarted. After the trigger that
  made the flag active, and whatever triggers follow, the flag is active exactly as long
  as less than the delay has passed since that first trigger, and the time left on the
  timeout is the delay less the time passed.
\<close>

theorem timer_not_restarted:
  "(loading h \<longrightarrow> start delay h = h) \<and>
   (elapsed evs < delay \<longrightarrow>
      loading (run delay (start delay idle) evs) \<and>
      timeout (run delay (start delay idle) evs) = Some (delay - elapsed evs) \<and>
      loading (elapse delay dt (run delay (start delay idle) evs))
        = (elapsed evs + dt < delay))"
proof (intro conjI impI)
  assume "loading h"
  then show "start delay h = h" by (simp add: start_def setLoading_def)
next
  assume e: "elapsed evs < delay"
  from run_armed [of "start delay idle" delay evs delay] start_idle [of delay] e
  have l: "loading (run delay (start delay idle) evs)"
    and t: "timeout (run delay (start delay idle) evs) = Some (delay - elapsed evs)"
    by simp_all
  show "loading (run delay (start delay idle) evs)" by (rule l)
  show "timeout (run delay (start delay idle) evs) = Some (delay - elapsed evs)" by (rule t)
  from l t e show "loading (elapse delay dt (run delay (start delay idle) evs))
        = (elapsed evs + dt < delay)"
    by (auto simp: elapse_def setLoading_def effect_def)
qed

theorem timer_not_restarted_witness:
  "loading (start 500 idle) \<and> start 500 (start 500 idle) = start 500 idle \<and>
   elapsed [Elapse 400, Start] < 500 \<and>
   loading (run 500 (start 500 idle) [Elapse 400, Start]) \<and>
   timeout (run 500 (start 500 idle) [Elapse 400, Start]) = Some 100 \<and>
   \<not> loading (elapse 500 100 (run 500 (start 500 idle) [Elapse 400, Start]))"
proof -
  have a: "loading (start 500 idle)" using start_idle [of 500] by simp
  have b: "elapsed [Elapse 400, Start] < 500" by simp
  have c: "elapsed [Elapse 400, Start] = 400" by simp
  from timer_not_restarted [of "start 500 idle" 500 "[Elapse 400, Start]" 100] a b c
  show ?thesis by simp
qed

text \<open>
  C9 as the specification words it fails: with the delay of 500 ms, a trigger, 400 ms, a
  second trigger and 100 ms more leave the flag idle, 100 ms after the most recent
  trigger.
\<close>

theorem timer_restart_counterexample:
  "run 500 idle [Start, Elapse 400, Start] = \<lparr>loading = True, timeout = Some 100\<rparr> \<and>
   \<not> loading (run 500 idle [Start, Elapse 400, Start, Elapse 100])"
  by (simp add: run_def start_def setLoading_def effect_def elapse_def idle_def)

end
